theory Spec2Isabelle
  imports Main "HOL-Library.Sublist"
begin

section \<open>Python values handled by MarkdownGenerator\<close>

text \<open>
  The generator is dynamically typed: \<open>addTable\<close> accepts any object for its header names,
  rows, records and alignment, and decides what to do by truth value, \<open>is None\<close>,
  \<open>isinstance(_, list)\<close>, iteration and \<open>len\<close>. The values considered are \<open>None\<close>,
  booleans, integers, strings, lists, dictionaries with string keys (an association list in
  insertion order) and the key view that \<open>dict.keys()\<close> returns.

  Strings are lists of 8-bit characters read as the code points 0 to 255.
\<close>

datatype pyval =
    PNone
  | PBool bool
  | PInt int
  | PStr string
  | PList "pyval list"
  | PDict "(string \<times> pyval) list"
  | PDictKeys "string list"

datatype exn =
    TypeError string
  | AttributeError string
  | KeyError pyval
  | IndexError string

datatype level = DEBUG | INFO | WARNING | ERROR

subsection \<open>Characters used by the templates\<close>

definition squote :: char where "squote = CHR 0x27"
definition dquote :: char where "dquote = CHR 0x22"
definition backslash :: char where "backslash = CHR 0x5C"
definition backtick :: char where "backtick = CHR 0x60"

text \<open>\<open>linesep = '\n'\<close> (line 5 of the module).\<close>

definition linesep :: string where "linesep = [CHR 0x0A]"

subsection \<open>\<open>str\<close>, \<open>repr\<close>, truth value, iteration, \<open>len\<close>\<close>

definition digit_char :: "nat \<Rightarrow> char" where
  "digit_char d = ''0123456789abcdef'' ! d"

fun show_nat :: "nat \<Rightarrow> string" where
  "show_nat n = (if n < 10 then [digit_char n] else show_nat (n div 10) @ [digit_char (n mod 10)])"

declare show_nat.simps [simp del]

definition show_int :: "int \<Rightarrow> string" where
  "show_int i = (if i < 0 then CHR ''-'' # show_nat (nat (- i)) else show_nat (nat i))"

text \<open>
  \<open>repr\<close> of a string, as CPython's \<open>unicode_repr\<close> does it for code points below 256:
  single quotes unless the text has a single quote and no double quote; the quote and the
  backslash are escaped, tab, newline and carriage return get their letter, every other
  non-printable code point becomes \<open>\xhh\<close>.
\<close>

definition repr_char :: "char \<Rightarrow> char \<Rightarrow> string" where
  "repr_char q c =
     (let n = (of_char c :: nat) in
      if c = q \<or> c = backslash then [backslash, c]
      else if n = 9 then [backslash, CHR ''t'']
      else if n = 10 then [backslash, CHR ''n'']
      else if n = 13 then [backslash, CHR ''r'']
      else if n < 32 \<or> n = 127 \<or> (128 \<le> n \<and> n \<le> 160) \<or> n = 173
        then [backslash, CHR ''x'', digit_char (n div 16), digit_char (n mod 16)]
      else [c])"

definition repr_str :: "string \<Rightarrow> string" where
  "repr_str s =
     (let q = (if squote \<in> set s \<and> dquote \<notin> set s then dquote else squote)
      in [q] @ concat (map (repr_char q) s) @ [q])"

fun join :: "string \<Rightarrow> string list \<Rightarrow> string" where
  "join sep [] = []"
| "join sep [x] = x"
| "join sep (x # y # ys) = x @ sep @ join sep (y # ys)"

fun py_repr :: "pyval \<Rightarrow> string" where
  "py_repr PNone = ''None''"
| "py_repr (PBool b) = (if b then ''True'' else ''False'')"
| "py_repr (PInt i) = show_int i"
| "py_repr (PStr s) = repr_str s"
| "py_repr (PList xs) = ''['' @ join '', '' (map py_repr xs) @ '']''"
| "py_repr (PDict d) =
     ''{'' @ join '', '' (map (\<lambda>kv. repr_str (fst kv) @ '': '' @ py_repr (snd kv)) d) @ ''}''"
| "py_repr (PDictKeys ks) = ''dict_keys(['' @ join '', '' (map repr_str ks) @ ''])''"

text \<open>\<open>str(v)\<close>, which is also what an f-string field \<open>{v}\<close> puts into the text.\<close>

fun py_str :: "pyval \<Rightarrow> string" where
  "py_str (PStr s) = s"
| "py_str v = py_repr v"

fun type_name :: "pyval \<Rightarrow> string" where
  "type_name PNone = ''NoneType''"
| "type_name (PBool _) = ''bool''"
| "type_name (PInt _) = ''int''"
| "type_name (PStr _) = ''str''"
| "type_name (PList _) = ''list''"
| "type_name (PDict _) = ''dict''"
| "type_name (PDictKeys _) = ''dict_keys''"

fun truthy :: "pyval \<Rightarrow> bool" where
  "truthy PNone = False"
| "truthy (PBool b) = b"
| "truthy (PInt i) = (i \<noteq> 0)"
| "truthy (PStr s) = (s \<noteq> [])"
| "truthy (PList xs) = (xs \<noteq> [])"
| "truthy (PDict d) = (d \<noteq> [])"
| "truthy (PDictKeys ks) = (ks \<noteq> [])"

text \<open>\<open>for x in v\<close>: the items, or the \<open>TypeError\<close> of an object that is not iterable.\<close>

fun py_iter :: "pyval \<Rightarrow> exn + pyval list" where
  "py_iter (PStr s) = Inr (map (\<lambda>c. PStr [c]) s)"
| "py_iter (PList xs) = Inr xs"
| "py_iter (PDict d) = Inr (map (\<lambda>kv. PStr (fst kv)) d)"
| "py_iter (PDictKeys ks) = Inr (map PStr ks)"
| "py_iter v = Inl (TypeError ([squote] @ type_name v @ [squote] @ '' object is not iterable''))"

fun py_len :: "pyval \<Rightarrow> exn + nat" where
  "py_len (PStr s) = Inr (length s)"
| "py_len (PList xs) = Inr (length xs)"
| "py_len (PDict d) = Inr (length d)"
| "py_len (PDictKeys ks) = Inr (length ks)"
| "py_len v = Inl (TypeError (''object of type '' @ [squote] @ type_name v @ [squote] @ '' has no len()''))"

text \<open>\<open>v[0]\<close>, the only subscript the module takes.\<close>

fun py_item0 :: "pyval \<Rightarrow> exn + pyval" where
  "py_item0 (PStr s) = (case s of [] \<Rightarrow> Inl (IndexError ''string index out of range'') | c # _ \<Rightarrow> Inr (PStr [c]))"
| "py_item0 (PList xs) = (case xs of [] \<Rightarrow> Inl (IndexError ''list index out of range'') | x # _ \<Rightarrow> Inr x)"
| "py_item0 (PDict d) = Inl (KeyError (PInt 0))"
| "py_item0 v = Inl (TypeError ([squote] @ type_name v @ [squote] @ '' object is not subscriptable''))"

subsection \<open>Library functions on text\<close>

text \<open>
  \<open>html.escape(s)\<close> with its default \<open>quote=True\<close>. The library replaces \<open>&\<close> first and then
  \<open><\<close>, \<open>>\<close>, the double and the single quote; no replacement text contains a character that
  a later replacement looks for, so the result is the character-wise substitution.
\<close>

definition escape_char :: "char \<Rightarrow> string" where
  "escape_char c =
     (if c = CHR ''&'' then ''&amp;''
      else if c = CHR ''<'' then ''&lt;''
      else if c = CHR ''>'' then ''&gt;''
      else if c = dquote then ''&quot;''
      else if c = squote then ''&#x27;''
      else [c])"

definition escape :: "string \<Rightarrow> string" where
  "escape s = concat (map escape_char s)"

text \<open>\<open>str.strip()\<close>: the code points below 256 that \<open>str.isspace\<close> accepts.\<close>

definition py_isspace :: "char \<Rightarrow> bool" where
  "py_isspace c =
     (let n = (of_char c :: nat) in (9 \<le> n \<and> n \<le> 13) \<or> (28 \<le> n \<and> n \<le> 32) \<or> n = 133 \<or> n = 160)"

definition strip :: "string \<Rightarrow> string" where
  "strip s = rev (dropWhile py_isspace (rev (dropWhile py_isspace s)))"

text \<open>
  \<open>str.capitalize()\<close>: the first character in title case, the others in lower case, by the
  Unicode case mapping of the code points below 256. The small letters \<open>a\<close> to \<open>z\<close> and
  U+00E0 to U+00FE (without the division sign U+00F7) have their capital 32 below, the
  sharp s U+00DF has the title case \<open>Ss\<close>, and the capitals have their small letter 32 above
  (without the multiplication sign U+00D7). Two code points have a title case beyond 255,
  the micro sign U+00B5 and U+00FF; as first character they are left as they are here.
\<close>

definition to_title :: "char \<Rightarrow> string" where
  "to_title c =
     (let n = (of_char c :: nat) in
      if (97 \<le> n \<and> n \<le> 122) \<or> (224 \<le> n \<and> n \<le> 254 \<and> n \<noteq> 247) then [char_of (n - 32)]
      else if n = 223 then ''Ss''
      else [c])"

definition to_lower :: "char \<Rightarrow> char" where
  "to_lower c =
     (let n = (of_char c :: nat) in
      if (65 \<le> n \<and> n \<le> 90) \<or> (192 \<le> n \<and> n \<le> 222 \<and> n \<noteq> 215) then char_of (n + 32)
      else c)"

definition capitalize :: "string \<Rightarrow> string" where
  "capitalize s = (case s of [] \<Rightarrow> [] | c # cs \<Rightarrow> to_title c @ map to_lower cs)"

text \<open>\<open>text.replace("`", "\`")\<close>; the Python literal \<open>"\`"\<close> is a backslash and a backtick.\<close>

definition replace_backticks :: "string \<Rightarrow> string" where
  "replace_backticks s = concat (map (\<lambda>c. if c = backtick then [backslash, backtick] else [c]) s)"

section \<open>The generator\<close>

text \<open>
  The constants imported from the \<open>syntax\<close> module, under the names the generator gives them.
  The module is not part of the sources at hand, so the generator takes them as a parameter.
\<close>

record md_syntax =
  HORIZONTAL_RULE :: string
  SINGLE_LINE_BLOCKQUOTE :: string
  MULTILINE_BLOCKQUOTE :: string
  CODE_BLOCK :: string
  INLINE_CODE_HIGHLIGHT :: string

text \<open>
  The part of a \<open>MarkdownGenerator\<close> instance that the emission methods read and change:
  the buffer \<open>document_data_array\<close>, the flag \<open>enable_write\<close>, the text written to the open
  file \<open>document\<close> (one entry for each \<open>write\<close>), and the records handed to \<open>logger\<close>.
\<close>

record gen_state =
  document_data_array :: "string list"
  enable_write :: bool
  document :: "string list"
  logger :: "(level \<times> string) list"

datatype outcome = Returned | Raised exn

definition log :: "level \<Rightarrow> string \<Rightarrow> gen_state \<Rightarrow> gen_state" where
  "log lv msg s = s\<lparr>logger := logger s @ [(lv, msg)]\<rparr>"

definition emit :: "string \<Rightarrow> gen_state \<Rightarrow> gen_state" where
  \<comment> \<open>\<open>self.document_data_array.append(t)\<close>, then \<open>self.document.write(t)\<close> if \<open>enable_write\<close>\<close>
  "emit t s =
     (let s1 = s\<lparr>document_data_array := document_data_array s @ [t]\<rparr>
      in if enable_write s1 then s1\<lparr>document := document s1 @ [t]\<rparr> else s1)"

definition writeText :: "pyval \<Rightarrow> bool \<Rightarrow> gen_state \<Rightarrow> gen_state" where
  "writeText text html_escape s =
     (if html_escape then emit (escape (py_str text)) s
      else emit (py_str text) s)"

definition writeTextLine :: "pyval \<Rightarrow> bool \<Rightarrow> gen_state \<Rightarrow> gen_state" where
  "writeTextLine text html_escape s =
     (if text = PNone then emit (''  '' @ linesep) s
      else if html_escape then emit (escape (py_str text) @ ''  '' @ linesep) s
      else emit (py_str text @ ''  '' @ linesep) s)"

subsection \<open>Emphasis, links, rules, code and quotes\<close>

definition addBoldedText :: "string \<Rightarrow> bool \<Rightarrow> gen_state \<Rightarrow> string \<times> gen_state" where
  "addBoldedText text write_as_line s =
     (let bolded = ''**'' @ strip text @ ''**''
      in (bolded, if write_as_line then writeTextLine (PStr bolded) True s else s))"

definition addItalicizedText :: "string \<Rightarrow> bool \<Rightarrow> gen_state \<Rightarrow> string \<times> gen_state" where
  "addItalicizedText text write_as_line s =
     (let italicized = ''*'' @ strip text @ ''*''
      in (italicized, if write_as_line then writeTextLine (PStr italicized) True s else s))"

definition addBoldedAndItalicizedText :: "string \<Rightarrow> bool \<Rightarrow> gen_state \<Rightarrow> string \<times> gen_state" where
  "addBoldedAndItalicizedText text write_as_line s =
     (let bolded_italicized = ''***'' @ strip text @ ''***''
      in (bolded_italicized,
          if write_as_line then writeTextLine (PStr bolded_italicized) True s else s))"

definition generateHrefNotation :: "pyval \<Rightarrow> pyval \<Rightarrow> pyval \<Rightarrow> string" where
  "generateHrefNotation text url title =
     (if truthy title
      then ''['' @ py_str text @ '']('' @ py_str url @ '' '' @ [dquote] @ py_str title @ [dquote] @ '')''
      else ''['' @ py_str text @ '']('' @ py_str url @ '')'')"

definition generateImageHrefNotation :: "pyval \<Rightarrow> pyval \<Rightarrow> pyval \<Rightarrow> string" where
  "generateImageHrefNotation image_uri alt_text title =
     (if truthy title
      then ''!['' @ py_str alt_text @ '']('' @ py_str image_uri @ '' '' @ [dquote] @ py_str title @ [dquote] @ '')''
      else ''!['' @ py_str alt_text @ '']('' @ py_str image_uri @ '')'')"

definition addHorizontalRule :: "md_syntax \<Rightarrow> gen_state \<Rightarrow> gen_state" where
  "addHorizontalRule syn s =
     writeTextLine (PStr (linesep @ HORIZONTAL_RULE syn @ linesep)) True s"

definition addCodeBlock :: "md_syntax \<Rightarrow> string \<Rightarrow> pyval \<Rightarrow> bool \<Rightarrow> gen_state \<Rightarrow> gen_state" where
  "addCodeBlock syn text syntax escape_html s =
     (let text' = replace_backticks text;
          block = CODE_BLOCK syn @ py_str syntax @ linesep @ text' @ linesep @ CODE_BLOCK syn
      in if escape_html then writeTextLine (PStr block) True s
         else writeTextLine (PStr block) False s)"

text \<open>
  \<open>addInlineCodeBlock\<close> returns the text when \<open>write\<close> is false and \<open>None\<close> (here: \<open>None\<close> of
  the option type) after writing it when \<open>write\<close> is true.
\<close>

definition addInlineCodeBlock ::
  "md_syntax \<Rightarrow> pyval \<Rightarrow> bool \<Rightarrow> bool \<Rightarrow> gen_state \<Rightarrow> string option \<times> gen_state" where
  "addInlineCodeBlock syn text escape_html write s =
     (let inline_hl = INLINE_CODE_HIGHLIGHT syn @ py_str text @ INLINE_CODE_HIGHLIGHT syn
      in if write then
           (if escape_html then (None, writeText (PStr inline_hl) True s)
            else (None, writeText (PStr inline_hl) False s))
         else (Some inline_hl, s))"

definition addSinglelineBlockQuote :: "md_syntax \<Rightarrow> string \<Rightarrow> gen_state \<Rightarrow> gen_state" where
  "addSinglelineBlockQuote syn text s =
     writeTextLine (PStr (SINGLE_LINE_BLOCKQUOTE syn @ escape (strip text))) False s"

definition addMultiLineBlockQuote :: "md_syntax \<Rightarrow> string \<Rightarrow> gen_state \<Rightarrow> gen_state" where
  "addMultiLineBlockQuote syn text s =
     writeTextLine
       (PStr (MULTILINE_BLOCKQUOTE syn @ linesep @ escape (strip text) @ linesep @ MULTILINE_BLOCKQUOTE syn))
       False s"

subsection \<open>addTable\<close>

text \<open>The attribute lookups of \<open>addTable\<close>: \<open>header.capitalize()\<close> and \<open>row.keys()\<close>.\<close>

definition no_attribute :: "pyval \<Rightarrow> string \<Rightarrow> string" where
  "no_attribute v a =
     [squote] @ type_name v @ [squote] @ '' object has no attribute '' @ [squote] @ a @ [squote]"

fun py_capitalize :: "pyval \<Rightarrow> exn + string" where
  "py_capitalize (PStr s) = Inr (capitalize s)"
| "py_capitalize v = Inl (AttributeError (no_attribute v ''capitalize''))"

fun py_keys :: "pyval \<Rightarrow> exn + string list" where
  "py_keys (PDict d) = Inr (map fst d)"
| "py_keys v = Inl (AttributeError (no_attribute v ''keys''))"

definition dict_get :: "(string \<times> pyval) list \<Rightarrow> string \<Rightarrow> pyval" where
  \<comment> \<open>\<open>row.get(key)\<close>: \<open>None\<close> for a key that is not there\<close>
  "dict_get d k = (case map_of d k of None \<Rightarrow> PNone | Some v \<Rightarrow> v)"

definition missing_input_message :: string where
  "missing_input_message =
     ''Invalid paramaters for generating new table. Use either dictionary list or row_elements.''"

text \<open>
  Lines 460 to 468: without header names of the caller and with a true \<open>dictionary_list\<close>, the
  header names are the keys of its first item. \<open>Inr\<close> carries the header names on; \<open>Inl\<close> ends
  the call, with \<open>return\<close> after the \<open>AttributeError\<close> that the \<open>except\<close> clause catches or with
  the exception that it does not catch.
\<close>

definition table_header_names ::
  "bool \<Rightarrow> pyval \<Rightarrow> pyval \<Rightarrow> gen_state \<Rightarrow> (outcome + pyval) \<times> gen_state" where
  "table_header_names useProvidedHeadernames header_names dictionary_list s =
     (if \<not> useProvidedHeadernames \<and> truthy dictionary_list then
        (case py_item0 dictionary_list of
           Inl e \<Rightarrow> (Inl (Raised e), s)
         | Inr first \<Rightarrow>
             (case py_keys first of
                Inl (AttributeError m) \<Rightarrow>
                  (Inl Returned,
                   log ERROR (''Dictionary list for addTable function was not list of objects. Table not generated. : '' @ m) s)
              | Inl e \<Rightarrow> (Inl (Raised e), s)
              | Inr ks \<Rightarrow>
                  (Inr (PDictKeys ks),
                   log DEBUG (''Header names are: '' @ py_str (PDictKeys ks)) s)))
      else (Inr header_names, s))"

text \<open>Lines 470 to 475: the loop over the header names, inside the \<open>try\<close>.\<close>

fun header_loop :: "bool \<Rightarrow> pyval list \<Rightarrow> gen_state \<Rightarrow> outcome \<times> gen_state" where
  "header_loop capitalize_headers [] s = (Returned, s)"
| "header_loop capitalize_headers (header # rest) s =
     (if capitalize_headers then
        (case py_capitalize header of
           Inl e \<Rightarrow> (Raised e, s)
         | Inr c \<Rightarrow> header_loop capitalize_headers rest (writeText (PStr (''| '' @ c @ '' '')) True s))
      else header_loop capitalize_headers rest (writeText (PStr (''| '' @ py_str header @ '' '')) True s))"

definition header_row :: "bool \<Rightarrow> pyval \<Rightarrow> gen_state \<Rightarrow> outcome \<times> gen_state" where
  "header_row capitalize_headers header_names s =
     (case py_iter header_names of
        Inl e \<Rightarrow> (Raised e, s)
      | Inr hs \<Rightarrow> header_loop capitalize_headers hs s)"

text \<open>
  Lines 483 to 495: the row of dashes. Each branch takes \<open>len(header_names)\<close> when it builds
  its text, the last one after its warning.
\<close>

definition dashes :: "string \<Rightarrow> pyval \<Rightarrow> gen_state \<Rightarrow> outcome \<times> gen_state" where
  "dashes cell header_names s =
     (case py_len header_names of
        Inl e \<Rightarrow> (Raised e, s)
      | Inr n \<Rightarrow> (Returned, writeTextLine (PStr (''|'' @ concat (replicate n cell))) True s))"

definition separator_row :: "pyval \<Rightarrow> pyval \<Rightarrow> gen_state \<Rightarrow> outcome \<times> gen_state" where
  "separator_row alignment header_names s =
     (if alignment = PStr ''left'' then dashes '':---|'' header_names s
      else if alignment = PStr ''center'' then dashes '':---:|'' header_names s
      else if alignment = PStr ''right'' then dashes ''---:|'' header_names s
      else dashes '':---:|'' header_names
             (log WARNING ''Invalid alignment value in addTable. Using default.'' s))"

text \<open>Lines 500 to 517: the rows of \<open>row_elements\<close>.\<close>

fun row_list_items :: "pyval list \<Rightarrow> gen_state \<Rightarrow> gen_state" where
  "row_list_items [] s = s"
| "row_list_items (list_str # rest) s =
     row_list_items rest (writeText (PStr ''<br> '') False (writeText list_str True s))"

fun row_cells :: "bool \<Rightarrow> pyval list \<Rightarrow> gen_state \<Rightarrow> gen_state" where
  "row_cells html_escape [] s = s"
| "row_cells html_escape (element # rest) s =
     row_cells html_escape rest
       (case element of
          PList items \<Rightarrow> row_list_items items (writeText (PStr ''| '') True s)
        | _ \<Rightarrow> writeText (PStr (''| '' @ py_str element @ '' '')) html_escape s)"

definition too_long_message :: "nat \<Rightarrow> nat \<Rightarrow> string" where
  "too_long_message r h =
     ''The are more row elements than header names (Row: '' @ show_nat r @ '' - Header: '' @ show_nat h @ '' ''"

fun row_loop :: "pyval \<Rightarrow> bool \<Rightarrow> pyval list \<Rightarrow> gen_state \<Rightarrow> outcome \<times> gen_state" where
  "row_loop header_names html_escape [] s = (Returned, s)"
| "row_loop header_names html_escape (row # rest) s =
     (case py_len row of
        Inl e \<Rightarrow> (Raised e, s)
      | Inr m \<Rightarrow>
          (case py_len header_names of
             Inl e \<Rightarrow> (Raised e, s)
           | Inr n \<Rightarrow>
               if m > n then row_loop header_names html_escape rest (log ERROR (too_long_message m n) s)
               else
                 (case py_iter row of
                    Inl e \<Rightarrow> (Raised e, s)
                  | Inr elements \<Rightarrow>
                      row_loop header_names html_escape rest
                        (writeTextLine (PStr ''|'') True (row_cells html_escape elements s)))))"

text \<open>Lines 522 to 531: the records of \<open>dictionary_list\<close>.\<close>

fun dict_list_items :: "pyval list \<Rightarrow> gen_state \<Rightarrow> gen_state" where
  "dict_list_items [] s = s"
| "dict_list_items (list_str # rest) s =
     dict_list_items rest (writeText (PStr ''<br> '') False (writeText list_str True s))"

fun dict_cells :: "bool \<Rightarrow> (string \<times> pyval) list \<Rightarrow> string list \<Rightarrow> gen_state \<Rightarrow> gen_state" where
  "dict_cells html_escape row [] s = s"
| "dict_cells html_escape row (key # rest) s =
     dict_cells html_escape row rest
       (case dict_get row key of
          PList items \<Rightarrow> dict_list_items items (writeText (PStr ''| '') True s)
        | v \<Rightarrow> writeText (PStr (''| '' @ py_str v @ '' '')) html_escape s)"

fun dict_loop :: "bool \<Rightarrow> pyval list \<Rightarrow> gen_state \<Rightarrow> outcome \<times> gen_state" where
  "dict_loop html_escape [] s = (Returned, s)"
| "dict_loop html_escape (row # rest) s =
     (case row of
        PDict d \<Rightarrow>
          dict_loop html_escape rest
            (writeTextLine (PStr ''|'') True (dict_cells html_escape d (map fst d) s))
      | _ \<Rightarrow> (Raised (AttributeError (no_attribute row ''keys'')), s))"

text \<open>Lines 498 to 532: the body in the mode chosen, and the closing blank line.\<close>

definition table_body ::
  "bool \<Rightarrow> pyval \<Rightarrow> pyval \<Rightarrow> pyval \<Rightarrow> bool \<Rightarrow> gen_state \<Rightarrow> outcome \<times> gen_state" where
  "table_body useDictionaryList header_names row_elements dictionary_list html_escape s =
     (case
        (if \<not> useDictionaryList then
           (case py_iter row_elements of
              Inl e \<Rightarrow> (Raised e, s)
            | Inr rows \<Rightarrow> row_loop header_names html_escape rows s)
         else
           (case py_iter dictionary_list of
              Inl e \<Rightarrow> (Raised e, s)
            | Inr rows \<Rightarrow> dict_loop html_escape rows s))
      of
        (Raised e, s') \<Rightarrow> (Raised e, s')
      | (Returned, s') \<Rightarrow> (Returned, writeTextLine PNone True s'))"

text \<open>
  Lines 469 to 495: the header row in its \<open>try\<close>, the closing bar and the row of dashes.
  A \<open>TypeError\<close> is caught, logged and ends the call; any other exception leaves it.
  \<open>None\<close> lets the call go on, \<open>Some\<close> is how it ends.
\<close>

definition table_head ::
  "bool \<Rightarrow> pyval \<Rightarrow> pyval \<Rightarrow> gen_state \<Rightarrow> outcome option \<times> gen_state" where
  "table_head capitalize_headers header_names alignment s =
     (case header_row capitalize_headers header_names s of
        (Raised (TypeError m), s') \<Rightarrow>
          (Some Returned, log ERROR (''Invalid header names for table. Not generated: '' @ m) s')
      | (Raised e, s') \<Rightarrow> (Some (Raised e), s')
      | (Returned, s') \<Rightarrow>
          (case separator_row alignment header_names (writeTextLine (PStr ''|'') True s') of
             (Raised e, s'') \<Rightarrow> (Some (Raised e), s'')
           | (Returned, s'') \<Rightarrow> (None, s'')))"

definition addTable ::
  "pyval \<Rightarrow> pyval \<Rightarrow> pyval \<Rightarrow> pyval \<Rightarrow> bool \<Rightarrow> bool \<Rightarrow> gen_state \<Rightarrow> outcome \<times> gen_state" where
  "addTable header_names row_elements alignment dictionary_list html_escape capitalize_headers s =
     (if row_elements = PNone \<and> dictionary_list = PNone then
        (Raised (TypeError missing_input_message),
         log WARNING ''Invalid paramaters for generating new table.'' s)
      else
        let useDictionaryList = (row_elements = PNone);
            s1 = (if truthy row_elements \<and> truthy dictionary_list
                  then log DEBUG ''Both row elements and dictionary list provided, using dictionary list as default.'' s
                  else s);
            useProvidedHeadernames = truthy header_names;
            s2 = (if useProvidedHeadernames
                  then log DEBUG ''Header names provided. Using them.'' s1
                  else log DEBUG ''No header names provided. Using dictionary attribute names as default. Using none, if row_elements used.'' s1);
            s3 = writeTextLine PNone True s2
        in case table_header_names useProvidedHeadernames header_names dictionary_list s3 of
             (Inl out, s4) \<Rightarrow> (out, s4)
           | (Inr header_names', s4) \<Rightarrow>
               (case table_head capitalize_headers header_names' alignment s4 of
                  (Some out, s5) \<Rightarrow> (out, s5)
                | (None, s5) \<Rightarrow>
                    table_body useDictionaryList header_names' row_elements dictionary_list html_escape s5))"

subsection \<open>What a call added\<close>

text \<open>
  The fragments that a call appended to the buffer and the records it handed to the logger,
  read off the states before and after it.
\<close>

definition new_fragments :: "gen_state \<Rightarrow> gen_state \<Rightarrow> string list" where
  "new_fragments s s' = drop (length (document_data_array s)) (document_data_array s')"

definition new_records :: "gen_state \<Rightarrow> gen_state \<Rightarrow> (level \<times> string) list" where
  "new_records s s' = drop (length (logger s)) (logger s')"

definition records_at :: "level \<Rightarrow> (level \<times> string) list \<Rightarrow> string list" where
  "records_at lv rs = map snd (filter (\<lambda>r. fst r = lv) rs)"

text \<open>
  The state after appending the fragments \<open>fs\<close> (also written to the file when the generator
  writes at once) and logging the records \<open>rs\<close>.
\<close>

definition added :: "gen_state \<Rightarrow> string list \<Rightarrow> (level \<times> string) list \<Rightarrow> gen_state" where
  "added s fs rs =
     s\<lparr>document_data_array := document_data_array s @ fs,
       document := (if enable_write s then document s @ fs else document s),
       logger := logger s @ rs\<rparr>"

text \<open>A generator that buffers, with nothing in its buffer and nothing logged.\<close>

definition empty_generator :: gen_state where
  "empty_generator = \<lparr>document_data_array = [], enable_write = False, document = [], logger = []\<rparr>"

text \<open>
  The fragments of one table cell, as the two cell loops write them: a list is one opening
  bar followed by each item and a line break, anything else is one fragment.
\<close>

fun cell_fragments :: "bool \<Rightarrow> pyval \<Rightarrow> string list" where
  "cell_fragments html_escape (PList items) =
     ''| '' # concat (map (\<lambda>list_str. [escape (py_str list_str), ''<br> '']) items)"
| "cell_fragments html_escape v =
     [if html_escape then escape (''| '' @ py_str v @ '' '') else ''| '' @ py_str v @ '' '']"


text \<open>The debug records of lines 445 to 456, with which every table begins.\<close>

definition opening_records :: "pyval \<Rightarrow> pyval \<Rightarrow> pyval \<Rightarrow> (level \<times> string) list" where
  "opening_records header_names row_elements dictionary_list =
     (if truthy row_elements \<and> truthy dictionary_list
      then [(DEBUG, ''Both row elements and dictionary list provided, using dictionary list as default.'')]
      else []) @
     [if truthy header_names
      then (DEBUG, ''Header names provided. Using them.'')
      else (DEBUG, ''No header names provided. Using dictionary attribute names as default. Using none, if row_elements used.'')]"

text \<open>
  The point up to which \<open>addTable\<close> must come to write its row of dashes: an input is there,
  the header names are found and the header row is written without an exception.
\<close>

definition reaches_separator :: "pyval \<Rightarrow> pyval \<Rightarrow> pyval \<Rightarrow> bool \<Rightarrow> bool" where
  "reaches_separator header_names row_elements dictionary_list capitalize_headers =
     (\<not> (row_elements = PNone \<and> dictionary_list = PNone) \<and>
      (case table_header_names (truthy header_names) header_names dictionary_list empty_generator of
         (Inl out, _) \<Rightarrow> False
       | (Inr header_names', _) \<Rightarrow>
           fst (header_row capitalize_headers header_names' empty_generator) = Returned))"

text \<open>
  The header names that the loop of line 470 runs over: those of the caller, or the keys of
  the first record.
\<close>

definition written_header_names :: "pyval \<Rightarrow> pyval \<Rightarrow> pyval list" where
  "written_header_names header_names dictionary_list =
     (case table_header_names (truthy header_names) header_names dictionary_list empty_generator of
        (Inl out, _) \<Rightarrow> []
      | (Inr header_names', _) \<Rightarrow>
          (case py_iter header_names' of Inl e \<Rightarrow> [] | Inr hs \<Rightarrow> hs))"

text \<open>
  A step of a call is steady when its result and what it adds do not depend on the state it
  starts from, and it logs no warning.
\<close>

definition steady :: "(gen_state \<Rightarrow> 'a \<times> gen_state) \<Rightarrow> bool" where
  "steady f = (\<exists>r fs rs. (\<forall>s. f s = (r, added s fs rs)) \<and> records_at WARNING rs = [])"

section \<open>Footnote indices\<close>

text \<open>
  The constructor keeps the counter of footnotes in a dictionary \<open>{"value": n}\<close> so that a
  nested generator, given the same dictionary, counts on the same cell. The heap below holds
  these cells by address.
\<close>

type_synonym ref = nat

record heap =
  cells :: "ref \<Rightarrow> int option"
  next_ref :: ref

record builder =
  footnote_index :: ref

text \<open>
  Line 118, \<open>self.footnote_index = footnote_index if footnote_index else {"value": 0}\<close>:
  a dictionary handed in is true (it has the key \<open>"value"\<close>) and is kept; otherwise a new
  one is made.
\<close>

definition init_builder :: "ref option \<Rightarrow> heap \<Rightarrow> builder \<times> heap" where
  "init_builder footnote_index_arg h =
     (case footnote_index_arg of
        Some r \<Rightarrow> (\<lparr>footnote_index = r\<rparr>, h)
      | None \<Rightarrow>
          (\<lparr>footnote_index = next_ref h\<rparr>,
           h\<lparr>cells := (cells h)(next_ref h \<mapsto> 0), next_ref := Suc (next_ref h)\<rparr>))"

text \<open>
  Modelled from the spec: the method that creates a footnote reference is not among the
  sources at hand. The specification says that the shared counter \<open>footnote_index\<close> is
  incremented each time a footnote reference is created; the reference gets the value after
  the increment.
\<close>

definition create_footnote_reference :: "builder \<Rightarrow> heap \<Rightarrow> int \<times> heap" where
  "create_footnote_reference b h =
     (let v = (case cells h (footnote_index b) of Some n \<Rightarrow> n + 1 | None \<Rightarrow> 1)
      in (v, h\<lparr>cells := (cells h)(footnote_index b \<mapsto> v)\<rparr>))"

text \<open>
  A document is built by a root generator and the generators nested in it, each made with
  the \<open>footnote_index\<close> of the generator that makes it. \<open>Nest k\<close> lets generator \<open>k\<close> make a
  nested one, \<open>Footnote k\<close> lets generator \<open>k\<close> create a footnote reference; a number that
  names no generator does nothing. \<open>run_document\<close> gives the indices in the order issued.
\<close>

datatype step = Nest nat | Footnote nat

fun run_steps :: "step list \<Rightarrow> builder list \<Rightarrow> heap \<Rightarrow> int list" where
  "run_steps [] bs h = []"
| "run_steps (Nest k # rest) bs h =
     (if k < length bs then
        (case init_builder (Some (footnote_index (bs ! k))) h of
           (b, h') \<Rightarrow> run_steps rest (bs @ [b]) h')
      else run_steps rest bs h)"
| "run_steps (Footnote k # rest) bs h =
     (if k < length bs then
        (case create_footnote_reference (bs ! k) h of
           (i, h') \<Rightarrow> i # run_steps rest bs h')
      else run_steps rest bs h)"

definition run_document :: "step list \<Rightarrow> int list" where
  "run_document steps =
     (case init_builder None \<lparr>cells = Map.empty, next_ref = 0\<rparr> of
        (root, h) \<Rightarrow> run_steps steps [root] h)"

section \<open>Properties\<close>

subsection \<open>What the primitives change\<close>


lemma added_fields [simp]:
  "document_data_array (added s fs rs) = document_data_array s @ fs"
  "logger (added s fs rs) = logger s @ rs"
  "enable_write (added s fs rs) = enable_write s"
  "document (added s fs rs) = (if enable_write s then document s @ fs else document s)"
  by (simp_all add: added_def)

lemma added_added [simp]: "added (added s fs rs) fs' rs' = added s (fs @ fs') (rs @ rs')"
  by (simp add: added_def)

lemma added_nothing [simp]: "added s [] [] = s"
  by (simp add: added_def)

lemma emit_added: "emit t s = added s [t] []"
  by (simp add: emit_def added_def Let_def)

lemma log_added: "log lv m s = added s [] [(lv, m)]"
  by (simp add: log_def added_def)

lemma writeText_added:
  "writeText t e s = added s [if e then escape (py_str t) else py_str t] []"
  by (simp add: writeText_def emit_added)

lemma writeTextLine_added:
  "writeTextLine t e s =
     added s [if t = PNone then ''  '' @ linesep
               else if e then escape (py_str t) @ ''  '' @ linesep
               else py_str t @ ''  '' @ linesep] []"
  by (simp add: writeTextLine_def emit_added)

lemma new_fragments_added [simp]: "new_fragments s (added s fs rs) = fs"
  by (simp add: new_fragments_def)

lemma new_records_added [simp]: "new_records s (added s fs rs) = rs"
  by (simp add: new_records_def)

subsection \<open>The error for missing input\<close>

lemma py_iter_not_missing: "py_iter v = Inl e \<Longrightarrow> e \<noteq> TypeError missing_input_message"
  by (cases v) (auto simp: missing_input_message_def squote_def)

lemma py_len_not_missing: "py_len v = Inl e \<Longrightarrow> e \<noteq> TypeError missing_input_message"
  by (cases v) (auto simp: missing_input_message_def squote_def)

lemma py_item0_not_missing: "py_item0 v = Inl e \<Longrightarrow> e \<noteq> TypeError missing_input_message"
  by (cases v) (auto simp: missing_input_message_def squote_def split: list.splits)

lemma py_keys_attribute: "py_keys v = Inl e \<Longrightarrow> \<exists>m. e = AttributeError m"
  by (cases v) auto

lemma header_loop_not_missing:
  "header_loop c hs s = (Raised e, s') \<Longrightarrow> e \<noteq> TypeError missing_input_message"
proof (induction hs arbitrary: s)
  case Nil
  then show ?case by simp
next
  case (Cons h hs)
  show ?case
  proof (cases c)
    case True
    show ?thesis
    proof (cases "py_capitalize h")
      case (Inl x)
      with True Cons.prems show ?thesis by (cases h) auto
    next
      case (Inr t)
      with True Cons show ?thesis by auto
    qed
  next
    case False
    with Cons show ?thesis by auto
  qed
qed

lemma row_loop_not_missing:
  "row_loop hn esc rows s = (Raised e, s') \<Longrightarrow> e \<noteq> TypeError missing_input_message"
proof (induction rows arbitrary: s)
  case Nil
  then show ?case by simp
next
  case (Cons r rows)
  then show ?case
    by (auto split: sum.splits if_splits dest: py_len_not_missing py_iter_not_missing)
qed

lemma dict_loop_not_missing:
  "dict_loop esc rows s = (Raised e, s') \<Longrightarrow> e \<noteq> TypeError missing_input_message"
proof (induction rows arbitrary: s)
  case Nil
  then show ?case by simp
next
  case (Cons r rows)
  then show ?case by (cases r) auto
qed

lemma table_header_names_not_missing:
  "table_header_names u hn dl s = (Inl (Raised e), s') \<Longrightarrow> e \<noteq> TypeError missing_input_message"
  by (auto simp: table_header_names_def split: if_splits sum.splits exn.splits
           dest: py_item0_not_missing py_keys_attribute)

lemma table_head_not_missing:
  "table_head c hn al s = (Some (Raised e), s') \<Longrightarrow> e \<noteq> TypeError missing_input_message"
  by (auto simp: table_head_def header_row_def separator_row_def dashes_def
           split: if_splits sum.splits exn.splits prod.splits outcome.splits
           dest: py_iter_not_missing py_len_not_missing header_loop_not_missing)

lemma table_body_not_missing:
  "table_body u hn rows dl esc s = (Raised e, s') \<Longrightarrow> e \<noteq> TypeError missing_input_message"
  by (auto simp: table_body_def
           split: if_splits sum.splits prod.splits outcome.splits
           dest: py_iter_not_missing row_loop_not_missing dict_loop_not_missing)

lemma addTable_other_inputs:
  assumes "\<not> (rows = PNone \<and> dl = PNone)"
  shows "fst (addTable hn rows al dl esc c s) \<noteq> Raised (TypeError missing_input_message)"
proof
  assume a: "fst (addTable hn rows al dl esc c s) = Raised (TypeError missing_input_message)"
  obtain s' where "addTable hn rows al dl esc c s = (Raised (TypeError missing_input_message), s')"
    using a by (cases "addTable hn rows al dl esc c s") auto
  with assms show False
    by (auto simp: addTable_def Let_def split: prod.splits sum.splits option.splits
             dest: table_header_names_not_missing table_head_not_missing table_body_not_missing)
qed

text \<open>
  C2. With neither \<open>row_elements\<close> nor \<open>dictionary_list\<close> the call logs a warning and raises
  the \<open>TypeError\<close> for missing input, and nothing is appended to the buffer. For every other
  combination of the two inputs the call does not raise this error.
\<close>

theorem addTable_missing_input:
  "addTable header_names PNone alignment PNone html_escape capitalize_headers s =
     (Raised (TypeError missing_input_message),
      log WARNING ''Invalid paramaters for generating new table.'' s)
   \<and> new_fragments s (snd (addTable header_names PNone alignment PNone html_escape capitalize_headers s)) = []
   \<and> (fst (addTable header_names row_elements alignment dictionary_list html_escape capitalize_headers s)
        = Raised (TypeError missing_input_message))
      = (row_elements = PNone \<and> dictionary_list = PNone)"
proof -
  have 1: "addTable header_names PNone alignment PNone html_escape capitalize_headers s =
     (Raised (TypeError missing_input_message),
      log WARNING ''Invalid paramaters for generating new table.'' s)"
    by (simp add: addTable_def)
  have 2: "new_fragments s (snd (addTable header_names PNone alignment PNone html_escape capitalize_headers s)) = []"
    by (simp add: 1 log_added)
  have 3: "(fst (addTable header_names row_elements alignment dictionary_list html_escape capitalize_headers s)
        = Raised (TypeError missing_input_message))
      = (row_elements = PNone \<and> dictionary_list = PNone)"
  proof (cases "row_elements = PNone \<and> dictionary_list = PNone")
    case True
    then show ?thesis by (simp add: 1)
  next
    case False
    then show ?thesis using addTable_other_inputs [OF False] by simp
  qed
  from 1 2 3 show ?thesis by blast
qed



subsection \<open>Evaluating text\<close>

lemma show_nat_digit: "n < 10 \<Longrightarrow> show_nat n = [digit_char n]"
  by (simp add: show_nat.simps)

lemma escape_Nil: "escape [] = []"
  by (simp add: escape_def)

lemma escape_Cons: "escape (c # cs) = escape_char c @ escape cs"
  by (simp add: escape_def)

lemma escape_append: "escape (xs @ ys) = escape xs @ escape ys"
  by (simp add: escape_def)

lemmas eval_text =
  escape_Nil escape_Cons escape_append escape_char_def squote_def dquote_def backslash_def backtick_def linesep_def
  show_int_def show_nat_digit digit_char_def

lemmas eval_table =
  addTable_def Let_def table_header_names_def table_head_def header_row_def
  separator_row_def dashes_def table_body_def too_long_message_def
  log_added writeText_added writeTextLine_added dict_get_def

lemma records_at_append [simp]: "records_at lv (xs @ ys) = records_at lv xs @ records_at lv ys"
  by (simp add: records_at_def)

lemma records_at_Nil [simp]: "records_at lv [] = []"
  by (simp add: records_at_def)

lemma records_at_Cons [simp]:
  "records_at lv (r # rs) = (if fst r = lv then snd r # records_at lv rs else records_at lv rs)"
  by (simp add: records_at_def)

lemma opening_records_debug [simp]:
  "records_at ERROR (opening_records hn rows dl) = []"
  "records_at WARNING (opening_records hn rows dl) = []"
  by (simp_all add: opening_records_def)

subsection \<open>Both inputs at once\<close>

text \<open>
  C1. Called with the one row \<open>[1, 2]\<close>, the one record \<open>{"a": 3, "b": 4}\<close> and no header names,
  \<open>addTable\<close> takes the header row from the keys of the record and the body row from
  \<open>row_elements\<close>: the record's values 3 and 4 are not written. With the records alone the
  body row holds them.
\<close>

theorem addTable_both_inputs_body_from_rows:
  "new_fragments empty_generator
     (snd (addTable PNone (PList [PList [PInt 1, PInt 2]]) (PStr ''center'')
             (PList [PDict [(''a'', PInt 3), (''b'', PInt 4)]]) True False empty_generator))
   = [''  \<newline>'', ''| a '', ''| b '', ''|  \<newline>'', ''|:---:|:---:|  \<newline>'',
      ''| 1 '', ''| 2 '', ''|  \<newline>'', ''  \<newline>'']
   \<and> new_fragments empty_generator
     (snd (addTable PNone PNone (PStr ''center'')
             (PList [PDict [(''a'', PInt 3), (''b'', PInt 4)]]) True False empty_generator))
   = [''  \<newline>'', ''| a '', ''| b '', ''|  \<newline>'', ''|:---:|:---:|  \<newline>'',
      ''| 3 '', ''| 4 '', ''|  \<newline>'', ''  \<newline>'']"
  by (simp add: eval_table eval_text)

subsection \<open>Inline code\<close>

text \<open>
  C7. \<open>addInlineCodeBlock\<close> puts the text between the two delimiters as it is. With a
  backtick as delimiter the text \<open>a`b\<close> comes back as \<open>`a`b`\<close>: no backslash stands before
  the embedded backtick.
\<close>

theorem addInlineCodeBlock_keeps_backticks:
  "addInlineCodeBlock syn (PStr text) escape_html False s =
     (Some (INLINE_CODE_HIGHLIGHT syn @ text @ INLINE_CODE_HIGHLIGHT syn), s)
   \<and> addInlineCodeBlock syn (PStr text) escape_html True s =
     (None,
      writeText (PStr (INLINE_CODE_HIGHLIGHT syn @ text @ INLINE_CODE_HIGHLIGHT syn)) escape_html s)
   \<and> fst (addInlineCodeBlock (syn\<lparr>INLINE_CODE_HIGHLIGHT := [backtick]\<rparr>)
            (PStr [CHR ''a'', backtick, CHR ''b'']) False False s)
     = Some [backtick, CHR ''a'', backtick, CHR ''b'', backtick]"
  by (cases escape_html) (simp_all add: addInlineCodeBlock_def Let_def)

subsection \<open>Header names that cannot be iterated\<close>

text \<open>
  Against C3 as stated: with the header names \<open>5\<close> and one row the call returns normally.
  The \<open>TypeError\<close> of the loop over the header names is caught and logged.
\<close>

theorem addTable_int_headers_returns:
  "fst (addTable (PInt 5) (PList [PList [PInt 1]]) (PStr ''center'') PNone True False
          empty_generator) = Returned
   \<and> records_at ERROR (new_records empty_generator
        (snd (addTable (PInt 5) (PList [PList [PInt 1]]) (PStr ''center'') PNone True False
                empty_generator)))
     = [''Invalid header names for table. Not generated: '' @ [squote] @ ''int'' @ [squote]
          @ '' object is not iterable'']"
  by (simp add: eval_table eval_text)

lemma py_iter_error:
  "py_iter v = Inl e \<Longrightarrow>
     e = TypeError ([squote] @ type_name v @ [squote] @ '' object is not iterable'')"
  by (cases v) auto

lemma table_header_names_kept:
  "u \<or> \<not> truthy dl \<Longrightarrow> table_header_names u hn dl s = (Inr hn, s)"
  by (auto simp: table_header_names_def)

lemma addTable_start:
  assumes "\<not> (rows = PNone \<and> dl = PNone)"
  shows "addTable hn rows al dl esc c s =
     (case table_header_names (truthy hn) hn dl
             (added s [''  '' @ linesep] (opening_records hn rows dl)) of
        (Inl out, s4) \<Rightarrow> (out, s4)
      | (Inr hn', s4) \<Rightarrow>
          (case table_head c hn' al s4 of
             (Some out, s5) \<Rightarrow> (out, s5)
           | (None, s5) \<Rightarrow> table_body (rows = PNone) hn' rows dl esc s5))"
proof (cases "truthy rows \<and> truthy dl"; cases "truthy hn")
qed (use assms in \<open>auto simp: addTable_def Let_def opening_records_def log_added writeTextLine_added\<close>)

text \<open>
  C3, amended. When the header names that the loop of line 470 runs over cannot be iterated,
  and an input is there, the call returns normally: it has appended the opening blank line
  only and has logged one error, the text of the \<open>TypeError\<close> after a fixed prefix.
\<close>

theorem addTable_headers_not_iterable:
  assumes "py_iter header_names = Inl e"
    and "truthy header_names \<or> \<not> truthy dictionary_list"
    and "\<not> (row_elements = PNone \<and> dictionary_list = PNone)"
  shows "fst (addTable header_names row_elements alignment dictionary_list html_escape
                capitalize_headers s) = Returned
    \<and> new_fragments s (snd (addTable header_names row_elements alignment dictionary_list
                               html_escape capitalize_headers s)) = [''  '' @ linesep]
    \<and> records_at ERROR (new_records s (snd (addTable header_names row_elements alignment
                               dictionary_list html_escape capitalize_headers s)))
      = [''Invalid header names for table. Not generated: '' @ [squote]
           @ type_name header_names @ [squote] @ '' object is not iterable'']"
proof -
  let ?m = "[squote] @ type_name header_names @ [squote] @ '' object is not iterable''"
  have e: "py_iter header_names = Inl (TypeError ?m)"
    using assms(1) py_iter_error [OF assms(1)] by simp
  have head: "table_head capitalize_headers header_names alignment t =
      (Some Returned, log ERROR (''Invalid header names for table. Not generated: '' @ ?m) t)" for t
    by (simp add: table_head_def header_row_def e)
  have call: "addTable header_names row_elements alignment dictionary_list html_escape
           capitalize_headers s =
        (Returned, added s [''  '' @ linesep]
           (opening_records header_names row_elements dictionary_list
            @ [(ERROR, ''Invalid header names for table. Not generated: '' @ ?m)]))"
    by (simp add: addTable_start [OF assms(3)] table_header_names_kept [OF assms(2)] head log_added)
  show ?thesis
    by (simp add: call)
qed

theorem addTable_headers_not_iterable_witness:
  "fst (addTable (PBool True) (PList []) (PStr ''left'') PNone False True empty_generator) = Returned
   \<and> new_fragments empty_generator
        (snd (addTable (PBool True) (PList []) (PStr ''left'') PNone False True empty_generator))
      = [''  \<newline>'']
   \<and> records_at ERROR (new_records empty_generator
        (snd (addTable (PBool True) (PList []) (PStr ''left'') PNone False True empty_generator)))
      = [''Invalid header names for table. Not generated: '' @ [squote] @ ''bool'' @ [squote]
           @ '' object is not iterable'']"
  using addTable_headers_not_iterable
    [of "PBool True" "TypeError ([squote] @ ''bool'' @ [squote] @ '' object is not iterable'')"
        PNone "PList []" "PStr ''left''" False True empty_generator]
  by (simp add: linesep_def)



subsection \<open>The loops of addTable\<close>

lemma escape_bar: "escape ''|'' = ''|''" "escape ''| '' = ''| ''"
  by (simp_all add: eval_text)

lemma row_list_items_added:
  "row_list_items items s =
     added s (concat (map (\<lambda>list_str. [escape (py_str list_str), ''<br> '']) items)) []"
  by (induction items arbitrary: s) (simp_all add: writeText_added)

lemma dict_list_items_added:
  "dict_list_items items s =
     added s (concat (map (\<lambda>list_str. [escape (py_str list_str), ''<br> '']) items)) []"
  by (induction items arbitrary: s) (simp_all add: writeText_added)

lemma row_cells_added:
  "row_cells esc elements s = added s (concat (map (cell_fragments esc) elements)) []"
proof (induction elements arbitrary: s)
  case Nil
  show ?case by simp
next
  case (Cons element rest)
  show ?case
    by (cases element) (simp_all add: Cons.IH writeText_added row_list_items_added escape_bar)
qed

lemma dict_cells_added:
  "dict_cells esc row ks s =
     added s (concat (map (\<lambda>key. cell_fragments esc (dict_get row key)) ks)) []"
proof (induction ks arbitrary: s)
  case Nil
  show ?case by simp
next
  case (Cons key rest)
  show ?case
    by (cases "dict_get row key")
       (simp_all add: Cons.IH writeText_added dict_list_items_added escape_bar)
qed

lemma header_loop_strings:
  "header_loop c (map PStr hs) s =
     (Returned,
      added s (map (\<lambda>h. escape (''| '' @ (if c then capitalize h else h) @ '' '')) hs) [])"
  by (cases c; induction hs arbitrary: s) (simp_all add: writeText_added)

lemma row_loop_lists:
  assumes "py_len hn = Inr n"
  shows "row_loop hn esc (map PList rows) s =
     (Returned,
      added s
        (concat (map (\<lambda>r. concat (map (cell_fragments esc) r) @ [''|  '' @ linesep])
                     (filter (\<lambda>r. length r \<le> n) rows)))
        (map (\<lambda>r. (ERROR, too_long_message (length r) n)) (filter (\<lambda>r. n < length r) rows)))"
proof (induction rows arbitrary: s)
  case Nil
  show ?case by simp
next
  case (Cons r rows)
  show ?case
    by (simp add: assms Cons.IH log_added writeTextLine_added row_cells_added escape_bar)
qed

lemma escape_dashes:
  "escape (concat (replicate n '':---|'')) = concat (replicate n '':---|'')"
  "escape (concat (replicate n '':---:|'')) = concat (replicate n '':---:|'')"
  "escape (concat (replicate n ''---:|'')) = concat (replicate n ''---:|'')"
  by (induction n) (simp_all add: eval_text)

lemma py_iter_len: "py_iter v = Inr xs \<Longrightarrow> py_len v = Inr (length xs)"
  by (cases v) auto

subsection \<open>Steady steps\<close>

lemma steadyI:
  "(\<And>s. f s = (r, added s fs rs)) \<Longrightarrow> records_at WARNING rs = [] \<Longrightarrow> steady f"
  unfolding steady_def by blast

lemma steady_return: "steady (\<lambda>s. (r, s))"
  by (rule steadyI [of _ r "[]" "[]"]) simp_all

lemma steady_after:
  assumes "steady f" and "records_at WARNING rs = []"
  shows "steady (\<lambda>s. f (added s fs rs))"
proof -
  from assms(1) obtain r fs' rs' where f: "\<And>s. f s = (r, added s fs' rs')"
    and q: "records_at WARNING rs' = []"
    unfolding steady_def by blast
  show ?thesis
    by (rule steadyI [of _ r "fs @ fs'" "rs @ rs'"]) (simp_all add: f q assms(2))
qed

lemma steady_header_loop: "steady (header_loop c hs)"
proof (induction hs)
  case Nil
  show ?case by (simp add: steady_return)
next
  case (Cons h hs)
  show ?case
  proof (cases "c \<and> (\<exists>e. py_capitalize h = Inl e)")
    case True
    then obtain e where "py_capitalize h = Inl e" by blast
    with True show ?thesis by (simp add: steady_return)
  next
    case False
    show ?thesis
    proof (cases c)
      case True
      with False obtain t where t: "py_capitalize h = Inr t" by (cases "py_capitalize h") auto
      show ?thesis
        using steady_after [OF Cons.IH, of "[]" "[escape (''| '' @ t @ '' '')]"]
        by (simp add: True t writeText_added)
    next
      case c: False
      show ?thesis
        using steady_after [OF Cons.IH, of "[]" "[escape (''| '' @ py_str h @ '' '')]"]
        by (simp add: c writeText_added)
    qed
  qed
qed

lemma steady_header_row: "steady (header_row c hn)"
  by (cases "py_iter hn")
     (simp_all add: header_row_def [abs_def] steady_return steady_header_loop)

lemma steady_row_loop: "steady (row_loop hn esc rows)"
proof (induction rows)
  case Nil
  show ?case by (simp add: steady_return)
next
  case (Cons row rest)
  show ?case
  proof (cases "py_len row")
    case (Inl e)
    then show ?thesis by (simp add: steady_return)
  next
    case m: (Inr m)
    show ?thesis
    proof (cases "py_len hn")
      case (Inl e)
      with m show ?thesis by (simp add: steady_return)
    next
      case n: (Inr n)
      show ?thesis
      proof (cases "m > n")
        case True
        show ?thesis
          using steady_after [OF Cons.IH, of "[(ERROR, too_long_message m n)]" "[]"]
          by (simp add: m n True log_added)
      next
        case False
        show ?thesis
        proof (cases "py_iter row")
          case (Inl e)
          with m n False show ?thesis by (simp add: steady_return)
        next
          case (Inr elements)
          show ?thesis
            using steady_after [OF Cons.IH, of "[]"
                "concat (map (cell_fragments esc) elements) @ [''|  '' @ linesep]"]
            by (simp add: m n False Inr writeTextLine_added row_cells_added escape_bar)
        qed
      qed
    qed
  qed
qed

lemma steady_dict_loop: "steady (dict_loop esc rows)"
proof (induction rows)
  case Nil
  show ?case by (simp add: steady_return)
next
  case (Cons row rest)
  show ?case
  proof (cases row)
    case (PDict d)
    show ?thesis
      using steady_after [OF Cons.IH, of "[]"
          "concat (map (\<lambda>key. cell_fragments esc (dict_get d key)) (map fst d)) @ [''|  '' @ linesep]"]
      by (simp add: PDict writeTextLine_added dict_cells_added escape_bar)
  qed (simp_all add: steady_return)
qed

lemma steady_closing:
  assumes "steady f"
  shows "steady (\<lambda>s. case f s of (Raised e, s') \<Rightarrow> (Raised e, s')
                      | (Returned, s') \<Rightarrow> (Returned, writeTextLine PNone True s'))"
proof -
  from assms obtain r fs rs where f: "\<And>s. f s = (r, added s fs rs)"
    and q: "records_at WARNING rs = []"
    unfolding steady_def by blast
  show ?thesis
  proof (cases r)
    case Returned
    show ?thesis
      by (rule steadyI [of _ Returned "fs @ [''  '' @ linesep]" rs])
         (simp_all add: f q Returned writeTextLine_added)
  next
    case (Raised e)
    show ?thesis
      by (rule steadyI [of _ "Raised e" fs rs]) (simp_all add: f q Raised)
  qed
qed

lemma steady_table_body: "steady (table_body u hn rows dl esc)"
proof -
  have "steady (\<lambda>s. if \<not> u then
           (case py_iter rows of
              Inl e \<Rightarrow> (Raised e, s)
            | Inr rs \<Rightarrow> row_loop hn esc rs s)
         else
           (case py_iter dl of
              Inl e \<Rightarrow> (Raised e, s)
            | Inr rs \<Rightarrow> dict_loop esc rs s))"
    by (cases u; cases "py_iter rows"; cases "py_iter dl")
       (simp_all add: steady_return steady_row_loop steady_dict_loop)
  from steady_closing [OF this] show ?thesis
    by (simp add: table_body_def [abs_def])
qed



subsection \<open>Rows longer than the header\<close>

lemma header_row_strings:
  "header_row c (PList (map PStr hs)) s =
     (Returned,
      added s (map (\<lambda>h. escape (''| '' @ (if c then capitalize h else h) @ '' '')) hs) [])"
  by (simp add: header_row_def header_loop_strings)

lemma dashes_list:
  "dashes cell (PList xs) s =
     (Returned,
      writeTextLine (PStr (''|'' @ concat (replicate (length xs) cell))) True s)"
  by (simp add: dashes_def)

lemma separator_row_list:
  "separator_row al (PList xs) s =
     (Returned,
      added s
        [''|'' @ concat (replicate (length xs)
                   (if al = PStr ''left'' then '':---|''
                    else if al = PStr ''right'' then ''---:|'' else '':---:|'')) @ ''  '' @ linesep]
        (if al = PStr ''left'' \<or> al = PStr ''center'' \<or> al = PStr ''right'' then []
         else [(WARNING, ''Invalid alignment value in addTable. Using default.'')]))"
  by (simp add: separator_row_def dashes_list writeTextLine_added log_added
        escape_Cons escape_char_def squote_def dquote_def escape_dashes)

text \<open>
  C4. In row mode, with a list of strings as header names and a list of lists as rows, the
  call returns normally whatever the rows' lengths. The body holds, in order, the rows that
  have no more elements than there are header names, each as its cells and a closing bar;
  a longer row adds nothing to the buffer, and for each of them one error is logged.
\<close>

theorem addTable_long_rows_skipped:
  assumes "hs \<noteq> [] \<or> \<not> truthy dictionary_list"
  shows "fst (addTable (PList (map PStr hs)) (PList (map PList rows)) alignment
                dictionary_list html_escape capitalize_headers s) = Returned
    \<and> new_fragments s (snd (addTable (PList (map PStr hs)) (PList (map PList rows)) alignment
                               dictionary_list html_escape capitalize_headers s))
      = [''  '' @ linesep]
        @ map (\<lambda>h. escape (''| '' @ (if capitalize_headers then capitalize h else h) @ '' '')) hs
        @ [''|  '' @ linesep]
        @ [''|'' @ concat (replicate (length hs)
                     (if alignment = PStr ''left'' then '':---|''
                      else if alignment = PStr ''right'' then ''---:|'' else '':---:|''))
             @ ''  '' @ linesep]
        @ concat (map (\<lambda>row. concat (map (cell_fragments html_escape) row) @ [''|  '' @ linesep])
                      (filter (\<lambda>row. length row \<le> length hs) rows))
        @ [''  '' @ linesep]
    \<and> records_at ERROR (new_records s (snd (addTable (PList (map PStr hs))
                               (PList (map PList rows)) alignment dictionary_list html_escape
                               capitalize_headers s)))
      = map (\<lambda>row. too_long_message (length row) (length hs))
            (filter (\<lambda>row. length hs < length row) rows)"
proof -
  let ?hn = "PList (map PStr hs)"
  have len: "py_len ?hn = Inr (length hs)"
    by simp
  have errors: "records_at ERROR (map (\<lambda>r. (ERROR, too_long_message (length r) n)) xs)
      = map (\<lambda>r. too_long_message (length r) n) xs" for n and xs :: "pyval list list"
    by (induction xs) simp_all
  have call: "addTable ?hn (PList (map PList rows)) alignment dictionary_list html_escape
      capitalize_headers s =
      (Returned,
       added s
         ([''  '' @ linesep]
          @ map (\<lambda>h. escape (''| '' @ (if capitalize_headers then capitalize h else h) @ '' '')) hs
          @ [''|  '' @ linesep]
          @ [''|'' @ concat (replicate (length hs)
                       (if alignment = PStr ''left'' then '':---|''
                        else if alignment = PStr ''right'' then ''---:|'' else '':---:|''))
               @ ''  '' @ linesep]
          @ concat (map (\<lambda>row. concat (map (cell_fragments html_escape) row) @ [''|  '' @ linesep])
                        (filter (\<lambda>row. length row \<le> length hs) rows))
          @ [''  '' @ linesep])
         (opening_records ?hn (PList (map PList rows)) dictionary_list
          @ (if alignment = PStr ''left'' \<or> alignment = PStr ''center'' \<or> alignment = PStr ''right''
             then [] else [(WARNING, ''Invalid alignment value in addTable. Using default.'')])
          @ map (\<lambda>r. (ERROR, too_long_message (length r) (length hs)))
                (filter (\<lambda>r. length hs < length r) rows)))"
    using separator_row_list [of alignment "map PStr hs"]
    by (simp add: addTable_start table_header_names_kept [OF assms] table_head_def
          header_row_strings table_body_def row_loop_lists [OF len]
          writeTextLine_added escape_bar)
  show ?thesis
    by (simp add: call errors)
qed

theorem addTable_long_rows_skipped_witness:
  "fst (addTable (PList [PStr ''x'', PStr ''y''])
          (PList [PList [PInt 1, PInt 2], PList [PInt 3, PInt 4, PInt 5]])
          (PStr ''center'') PNone True False empty_generator) = Returned
   \<and> new_fragments empty_generator
        (snd (addTable (PList [PStr ''x'', PStr ''y''])
                (PList [PList [PInt 1, PInt 2], PList [PInt 3, PInt 4, PInt 5]])
                (PStr ''center'') PNone True False empty_generator))
      = [''  \<newline>'', ''| x '', ''| y '', ''|  \<newline>'', ''|:---:|:---:|  \<newline>'',
         ''| 1 '', ''| 2 '', ''|  \<newline>'', ''  \<newline>'']
   \<and> records_at ERROR (new_records empty_generator
        (snd (addTable (PList [PStr ''x'', PStr ''y''])
                (PList [PList [PInt 1, PInt 2], PList [PInt 3, PInt 4, PInt 5]])
                (PStr ''center'') PNone True False empty_generator)))
      = [''The are more row elements than header names (Row: 3 - Header: 2 '']"
  using addTable_long_rows_skipped
    [of "[''x'', ''y'']" PNone "[PInt 1, PInt 2] # [PInt 3, PInt 4, PInt 5] # []"
        "PStr ''center''" True False empty_generator]
  by (simp add: eval_text too_long_message_def)



subsection \<open>List cells\<close>

lemma row_cells_fragments:
  "new_fragments s (row_cells esc elements s) = concat (map (cell_fragments esc) elements)"
  by (simp add: row_cells_added)

lemma dict_cells_fragments:
  "new_fragments s (dict_cells esc row ks s) =
     concat (map (\<lambda>key. cell_fragments esc (dict_get row key)) ks)"
  by (simp add: dict_cells_added)

lemma new_fragments_same [simp]: "new_fragments s s = []"
  by (simp add: new_fragments_def)

text \<open>
  C6. Wherever a list stands in a row of \<open>row_elements\<close>, and wherever a key with a list as
  value stands in a record of \<open>dictionary_list\<close>, the cell loop writes for it one opening bar
  and then each item followed by the text \<open><br> \<close>, which is written without escaping;
  the cells before and after are written as they would be without it. No bar is written
  between the items. For \<open>["a", "b"]\<close> the fragments make up \<open>| a<br> b<br> \<close>.
\<close>

theorem list_cell_is_one_cell:
  assumes "dict_get row key = PList items"
  shows "new_fragments s (row_cells html_escape (before @ PList items # after) s)
      = new_fragments s (row_cells html_escape before s)
        @ ''| '' # concat (map (\<lambda>list_str. [escape (py_str list_str), ''<br> '']) items)
        @ new_fragments s (row_cells html_escape after s)
    \<and> new_fragments s (dict_cells html_escape row (keys_before @ key # keys_after) s)
      = new_fragments s (dict_cells html_escape row keys_before s)
        @ ''| '' # concat (map (\<lambda>list_str. [escape (py_str list_str), ''<br> '']) items)
        @ new_fragments s (dict_cells html_escape row keys_after s)"
  unfolding row_cells_fragments dict_cells_fragments
  using assms by simp

theorem list_cell_is_one_cell_witness:
  "dict_get [(''k'', PList [PStr ''a'', PStr ''b''])] ''k'' = PList [PStr ''a'', PStr ''b'']
   \<and> concat (new_fragments empty_generator
        (row_cells False [PList [PStr ''a'', PStr ''b'']] empty_generator)) = ''| a<br> b<br> ''
   \<and> concat (new_fragments empty_generator
        (dict_cells False [(''k'', PList [PStr ''a'', PStr ''b''])] [''k''] empty_generator))
      = ''| a<br> b<br> ''
   \<and> new_fragments empty_generator
        (snd (addTable (PList [PStr ''h'']) (PList [PList [PList [PStr ''a'', PStr ''b'']]])
                (PStr ''left'') PNone True False empty_generator))
      = [''  \<newline>'', ''| h '', ''|  \<newline>'', ''|:---|  \<newline>'',
         ''| '', ''a'', ''<br> '', ''b'', ''<br> '', ''|  \<newline>'', ''  \<newline>'']
   \<and> new_fragments empty_generator
        (snd (addTable PNone PNone (PStr ''left'')
                (PList [PDict [(''h'', PList [PStr ''a'', PStr ''b''])]]) True False
                empty_generator))
      = [''  \<newline>'', ''| h '', ''|  \<newline>'', ''|:---|  \<newline>'',
         ''| '', ''a'', ''<br> '', ''b'', ''<br> '', ''|  \<newline>'', ''  \<newline>'']"
proof -
  have h: "dict_get [(''k'', PList [PStr ''a'', PStr ''b''])] ''k'' = PList [PStr ''a'', PStr ''b'']"
    by (simp add: dict_get_def)
  have cells: "concat (new_fragments empty_generator
        (row_cells False [PList [PStr ''a'', PStr ''b'']] empty_generator)) = ''| a<br> b<br> ''
   \<and> concat (new_fragments empty_generator
        (dict_cells False [(''k'', PList [PStr ''a'', PStr ''b''])] [''k''] empty_generator))
      = ''| a<br> b<br> ''"
    using h list_cell_is_one_cell [OF h, of empty_generator False "[]" "[]" "[]" "[]"]
    by (simp add: eval_text writeText_added)
  have rows: "new_fragments empty_generator
        (snd (addTable (PList [PStr ''h'']) (PList [PList [PList [PStr ''a'', PStr ''b'']]])
                (PStr ''left'') PNone True False empty_generator))
      = [''  \<newline>'', ''| h '', ''|  \<newline>'', ''|:---|  \<newline>'',
         ''| '', ''a'', ''<br> '', ''b'', ''<br> '', ''|  \<newline>'', ''  \<newline>'']"
    by (simp add: eval_table eval_text)
  have records: "new_fragments empty_generator
        (snd (addTable PNone PNone (PStr ''left'')
                (PList [PDict [(''h'', PList [PStr ''a'', PStr ''b''])]]) True False
                empty_generator))
      = [''  \<newline>'', ''| h '', ''|  \<newline>'', ''|:---|  \<newline>'',
         ''| '', ''a'', ''<br> '', ''b'', ''<br> '', ''|  \<newline>'', ''  \<newline>'']"
    by (simp add: eval_table eval_text)
  from h cells rows records show ?thesis
    by blast
qed





subsection \<open>Alignment\<close>

lemma table_header_names_effect:
  "\<exists>res rs. (\<forall>s. table_header_names u hn dl s = (res, added s [] rs))
     \<and> records_at WARNING rs = []"
proof (cases "\<not> u \<and> truthy dl")
  case False
  then have "\<forall>s. table_header_names u hn dl s = (Inr hn, added s [] [])"
    by (auto simp: table_header_names_def)
  then show ?thesis by fastforce
next
  case True
  show ?thesis
  proof (cases "py_item0 dl")
    case (Inl e)
    with True have "\<forall>s. table_header_names u hn dl s = (Inl (Raised e), added s [] [])"
      by (simp add: table_header_names_def)
    then show ?thesis by fastforce
  next
    case (Inr first)
    show ?thesis
    proof (cases first)
      case (PDict d)
      with True Inr have "\<forall>s. table_header_names u hn dl s =
          (Inr (PDictKeys (map fst d)),
           added s [] [(DEBUG, ''Header names are: '' @ py_str (PDictKeys (map fst d)))])"
        by (simp add: table_header_names_def log_added)
      then show ?thesis by fastforce
    qed (use True Inr in \<open>fastforce simp: table_header_names_def log_added\<close>)+
  qed
qed

lemma added_ex [simp]: "\<exists>fs' rs'. \<forall>s. added s fs rs = added s fs' rs'"
  by blast

lemma separator_row_adds: "\<exists>r fs rs. \<forall>s. separator_row al hn s = (r, added s fs rs)"
proof (cases "py_len hn")
  case (Inl e)
  have "\<forall>s. separator_row al hn s =
      (Raised e,
       added s []
         (if al = PStr ''left'' \<or> al = PStr ''center'' \<or> al = PStr ''right'' then []
          else [(WARNING, ''Invalid alignment value in addTable. Using default.'')]))"
    by (simp add: separator_row_def dashes_def Inl log_added)
  then show ?thesis by blast
next
  case (Inr n)
  have "\<forall>s. separator_row al hn s =
      (Returned,
       added s
         [escape (''|'' @ concat (replicate n
                    (if al = PStr ''left'' then '':---|''
                     else if al = PStr ''right'' then ''---:|'' else '':---:|''))) @ ''  '' @ linesep]
         (if al = PStr ''left'' \<or> al = PStr ''center'' \<or> al = PStr ''right'' then []
          else [(WARNING, ''Invalid alignment value in addTable. Using default.'')]))"
    by (simp add: separator_row_def dashes_def Inr log_added writeTextLine_added)
  then show ?thesis by blast
qed

lemma table_head_adds: "\<exists>out fs rs. \<forall>s. table_head c hn al s = (out, added s fs rs)"
proof -
  obtain r fs rs where hr: "\<And>t. header_row c hn t = (r, added t fs rs)"
    using steady_header_row [of c hn] unfolding steady_def by blast
  obtain r2 fs2 rs2 where sep: "\<And>t. separator_row al hn t = (r2, added t fs2 rs2)"
    using separator_row_adds by blast
  show ?thesis
  proof (cases r)
    case (Raised e)
    then show ?thesis
      by (cases e) (simp_all add: table_head_def hr log_added)
  next
    case Returned
    then show ?thesis
      by (cases r2) (simp_all add: table_head_def hr sep writeTextLine_added)
  qed
qed

lemma header_loop_returned:
  "fst (header_loop c hs s) = Returned \<Longrightarrow>
     \<exists>fs. length fs = length hs \<and> (\<forall>t. header_loop c hs t = (Returned, added t fs []))"
proof (induction hs arbitrary: s)
  case Nil
  show ?case by simp
next
  case (Cons h hs)
  show ?case
  proof (cases c)
    case True
    show ?thesis
    proof (cases "py_capitalize h")
      case (Inl e)
      with True Cons.prems show ?thesis by simp
    next
      case (Inr x)
      let ?f = "escape (''| '' @ x @ '' '')"
      from Cons.prems True Inr
      have "fst (header_loop c hs (writeText (PStr (''| '' @ x @ '' '')) True s)) = Returned"
        by simp
      from Cons.IH [OF this] obtain fs where
        fs: "length fs = length hs" "\<And>t. header_loop c hs t = (Returned, added t fs [])"
        by blast
      have "length (?f # fs) = length (h # hs)
          \<and> (\<forall>t. header_loop c (h # hs) t = (Returned, added t (?f # fs) []))"
        using True fs by (simp add: Inr writeText_added)
      then show ?thesis by blast
    qed
  next
    case False
    let ?f = "escape (''| '' @ py_str h @ '' '')"
    from Cons.prems False
    have "fst (header_loop c hs (writeText (PStr (''| '' @ py_str h @ '' '')) True s)) = Returned"
      by simp
    from Cons.IH [OF this] obtain fs where
      fs: "length fs = length hs" "\<And>t. header_loop c hs t = (Returned, added t fs [])"
      by blast
    have "length (?f # fs) = length (h # hs)
        \<and> (\<forall>t. header_loop c (h # hs) t = (Returned, added t (?f # fs) []))"
      using False fs by (simp add: writeText_added)
    then show ?thesis by blast
  qed
qed

lemma header_row_returned:
  assumes "fst (header_row c hn s) = Returned"
  shows "\<exists>hs fs. py_iter hn = Inr hs \<and> length fs = length hs
           \<and> (\<forall>t. header_row c hn t = (Returned, added t fs []))"
proof (cases "py_iter hn")
  case (Inl e)
  with assms show ?thesis by (simp add: header_row_def)
next
  case (Inr hs)
  with assms have "fst (header_loop c hs s) = Returned"
    by (simp add: header_row_def)
  from header_loop_returned [OF this] obtain fs where
    "length fs = length hs" "\<And>t. header_loop c hs t = (Returned, added t fs [])"
    by blast
  then have "py_iter hn = Inr hs \<and> length fs = length hs
      \<and> (\<forall>t. header_row c hn t = (Returned, added t fs []))"
    by (simp add: header_row_def Inr)
  then show ?thesis by blast
qed

lemma escape_centered:
  "escape (''|'' @ concat (replicate n '':---:|'')) = ''|'' @ concat (replicate n '':---:|'')"
  by (simp add: escape_Cons escape_char_def squote_def dquote_def escape_dashes)

text \<open>
  Against C5 as stated: with the alignment \<open>middle\<close>, one row and no header names the call
  returns after the opening blank line. It writes no row of dashes and logs no warning.
\<close>

theorem addTable_middle_without_headers:
  "fst (addTable PNone (PList [PList [PInt 1]]) (PStr ''middle'') PNone True False
          empty_generator) = Returned
   \<and> new_fragments empty_generator
        (snd (addTable PNone (PList [PList [PInt 1]]) (PStr ''middle'') PNone True False
                empty_generator))
      = [''  \<newline>'']
   \<and> records_at WARNING (new_records empty_generator
        (snd (addTable PNone (PList [PList [PInt 1]]) (PStr ''middle'') PNone True False
                empty_generator)))
      = []"
  by (simp add: eval_table eval_text)

text \<open>
  C5, amended. With an alignment other than \<open>left\<close>, \<open>center\<close> and \<open>right\<close> the call ends as
  the call with \<open>center\<close> does and appends the same fragments, and it logs the warnings of
  that call and, when it comes as far as the row of dashes, one more. When it comes that
  far, the fragment after the opening blank line, the header cells and the closing bar is
  the row of dashes of \<open>center\<close>, a bar and then \<open>:---:|\<close> once for each header name, and the
  warning of the fallback is the only one of the call.
\<close>

theorem addTable_alignment_fallback:
  assumes "alignment \<noteq> PStr ''left''"
    and "alignment \<noteq> PStr ''center''"
    and "alignment \<noteq> PStr ''right''"
  shows "fst (addTable header_names row_elements alignment dictionary_list html_escape
                capitalize_headers s)
      = fst (addTable header_names row_elements (PStr ''center'') dictionary_list html_escape
                capitalize_headers s)
    \<and> new_fragments s (snd (addTable header_names row_elements alignment dictionary_list
                               html_escape capitalize_headers s))
      = new_fragments s (snd (addTable header_names row_elements (PStr ''center'')
                               dictionary_list html_escape capitalize_headers s))
    \<and> records_at WARNING (new_records s (snd (addTable header_names row_elements alignment
                               dictionary_list html_escape capitalize_headers s)))
      = records_at WARNING (new_records s (snd (addTable header_names row_elements
                               (PStr ''center'') dictionary_list html_escape
                               capitalize_headers s)))
        @ (if reaches_separator header_names row_elements dictionary_list capitalize_headers
           then [''Invalid alignment value in addTable. Using default.''] else [])
    \<and> (reaches_separator header_names row_elements dictionary_list capitalize_headers \<longrightarrow>
         length (written_header_names header_names dictionary_list) + 2
           < length (new_fragments s (snd (addTable header_names row_elements alignment
                               dictionary_list html_escape capitalize_headers s)))
         \<and> new_fragments s (snd (addTable header_names row_elements alignment dictionary_list
                               html_escape capitalize_headers s))
             ! (length (written_header_names header_names dictionary_list) + 2)
           = ''|'' @ concat (replicate (length (written_header_names header_names
                                                  dictionary_list)) '':---:|'')
               @ ''  '' @ linesep
         \<and> records_at WARNING (new_records s (snd (addTable header_names row_elements alignment
                               dictionary_list html_escape capitalize_headers s)))
           = [''Invalid alignment value in addTable. Using default.''])"
proof (cases "row_elements = PNone \<and> dictionary_list = PNone")
  case True
  then show ?thesis
    by (simp add: addTable_def reaches_separator_def)
next
  case input: False
  note start = addTable_start [OF input]
  obtain res L1 where
    thn: "\<And>t. table_header_names (truthy header_names) header_names dictionary_list t
            = (res, added t [] L1)"
    and q1: "records_at WARNING L1 = []"
    using table_header_names_effect by blast
  show ?thesis
  proof (cases res)
    case (Inl out)
    then show ?thesis
      by (simp add: start thn reaches_separator_def)
  next
    case res: (Inr hn')
    obtain r F2 L2 where
      hr: "\<And>t. header_row capitalize_headers hn' t = (r, added t F2 L2)"
      and q2: "records_at WARNING L2 = []"
      using steady_header_row [of capitalize_headers hn'] unfolding steady_def by blast
    show ?thesis
    proof (cases r)
      case (Raised e)
      then show ?thesis
        by (cases e)
           (simp_all add: start thn res table_head_def hr reaches_separator_def log_added)
    next
      case r: Returned
      have reach: "reaches_separator header_names row_elements dictionary_list capitalize_headers"
        using input by (simp add: reaches_separator_def thn res hr r)
      have "fst (header_row capitalize_headers hn' s) = Returned"
        by (simp add: hr r)
      from header_row_returned [OF this] obtain hs fs where
        it: "py_iter hn' = Inr hs" and len: "length fs = length hs"
        and hr': "\<And>t. header_row capitalize_headers hn' t = (Returned, added t fs [])"
        by blast
      have n: "py_len hn' = Inr (length hs)"
        by (rule py_iter_len [OF it])
      have whn: "written_header_names header_names dictionary_list = hs"
        by (simp add: written_header_names_def thn res it)
      obtain r3 F3 L3 where
        tb: "\<And>t. table_body (row_elements = PNone) hn' row_elements dictionary_list
                html_escape t = (r3, added t F3 L3)"
        and q3: "records_at WARNING L3 = []"
        using steady_table_body
          [of "row_elements = PNone" hn' row_elements dictionary_list html_escape]
        unfolding steady_def by blast
      let ?sep = "''|'' @ concat (replicate (length hs) '':---:|'') @ ''  '' @ linesep"
      have A: "addTable header_names row_elements alignment dictionary_list html_escape
            capitalize_headers s =
          (r3, added s ([''  '' @ linesep] @ fs @ [''|  '' @ linesep] @ [?sep] @ F3)
                 (opening_records header_names row_elements dictionary_list @ L1
                  @ [(WARNING, ''Invalid alignment value in addTable. Using default.'')] @ L3))"
        using escape_centered [of "length hs"]
        by (simp add: start thn res table_head_def hr' separator_row_def dashes_def n assms
              log_added writeTextLine_added tb escape_bar)
      have C: "addTable header_names row_elements (PStr ''center'') dictionary_list html_escape
            capitalize_headers s =
          (r3, added s ([''  '' @ linesep] @ fs @ [''|  '' @ linesep] @ [?sep] @ F3)
                 (opening_records header_names row_elements dictionary_list @ L1 @ L3))"
        using escape_centered [of "length hs"]
        by (simp add: start thn res table_head_def hr' separator_row_def dashes_def n
              log_added writeTextLine_added tb escape_bar)
      have nth: "([''  '' @ linesep] @ fs @ [''|  '' @ linesep] @ [?sep] @ F3) ! (length hs + 2)
          = ?sep"
        using len by (simp add: nth_append nth_Cons')
      show ?thesis
        unfolding A C whn using nth len reach
        by (simp add: q1 q3)
    qed
  qed
qed

theorem addTable_alignment_fallback_witness:
  "PStr ''middle'' \<noteq> PStr ''left'' \<and> PStr ''middle'' \<noteq> PStr ''center''
   \<and> PStr ''middle'' \<noteq> PStr ''right''
   \<and> reaches_separator (PList [PStr ''x'', PStr ''y'']) (PList [PList [PInt 1, PInt 2]]) PNone False
   \<and> new_fragments empty_generator
        (snd (addTable (PList [PStr ''x'', PStr ''y'']) (PList [PList [PInt 1, PInt 2]])
                (PStr ''middle'') PNone True False empty_generator)) ! 4
      = ''|:---:|:---:|  \<newline>''
   \<and> new_fragments empty_generator
        (snd (addTable (PList [PStr ''x'', PStr ''y'']) (PList [PList [PInt 1, PInt 2]])
                (PStr ''middle'') PNone True False empty_generator))
      = new_fragments empty_generator
        (snd (addTable (PList [PStr ''x'', PStr ''y'']) (PList [PList [PInt 1, PInt 2]])
                (PStr ''center'') PNone True False empty_generator))
   \<and> records_at WARNING (new_records empty_generator
        (snd (addTable (PList [PStr ''x'', PStr ''y'']) (PList [PList [PInt 1, PInt 2]])
                (PStr ''middle'') PNone True False empty_generator)))
      = [''Invalid alignment value in addTable. Using default.'']"
proof -
  have a: "PStr ''middle'' \<noteq> PStr ''left''" "PStr ''middle'' \<noteq> PStr ''center''"
    "PStr ''middle'' \<noteq> PStr ''right''"
    by simp_all
  have b: "reaches_separator (PList [PStr ''x'', PStr ''y'']) (PList [PList [PInt 1, PInt 2]])
      PNone False"
    by (simp add: reaches_separator_def table_header_names_def header_row_def)
  have w: "written_header_names (PList [PStr ''x'', PStr ''y'']) PNone = [PStr ''x'', PStr ''y'']"
    by (simp add: written_header_names_def table_header_names_def)
  let ?A = "snd (addTable (PList [PStr ''x'', PStr ''y'']) (PList [PList [PInt 1, PInt 2]])
                (PStr ''middle'') PNone True False empty_generator)"
  let ?C = "snd (addTable (PList [PStr ''x'', PStr ''y'']) (PList [PList [PInt 1, PInt 2]])
                (PStr ''center'') PNone True False empty_generator)"
  note t = addTable_alignment_fallback
      [OF a, of "PList [PStr ''x'', PStr ''y'']" "PList [PList [PInt 1, PInt 2]]" PNone True False
         empty_generator, unfolded w]
  from t b have 1: "new_fragments empty_generator ?A ! (length [PStr ''x'', PStr ''y''] + 2)
      = ''|'' @ concat (replicate (length [PStr ''x'', PStr ''y'']) '':---:|'') @ ''  '' @ linesep"
    by blast
  from t have 2: "new_fragments empty_generator ?A = new_fragments empty_generator ?C"
    by blast
  from t b have 3: "records_at WARNING (new_records empty_generator ?A)
      = [''Invalid alignment value in addTable. Using default.'']"
    by blast
  have i: "length [PStr ''x'', PStr ''y''] + 2 = 4"
    by simp
  have v: "''|'' @ concat (replicate (length [PStr ''x'', PStr ''y'']) '':---:|'') @ ''  '' @ linesep
      = ''|:---:|:---:|  \<newline>''"
    by (simp add: linesep_def)
  from 1 have 4: "new_fragments empty_generator ?A ! 4 = ''|:---:|:---:|  \<newline>''"
    unfolding i v .
  from a b 4 2 3 show ?thesis
    by blast
qed

subsection \<open>The buffer only grows\<close>

lemma added_ex_here [simp]: "\<exists>fs' rs'. added s fs rs = added s fs' rs'"
  by blast

lemma addTable_adds: "\<exists>fs rs. snd (addTable hn rows al dl esc c s) = added s fs rs"
proof (cases "rows = PNone \<and> dl = PNone")
  case True
  then show ?thesis
    by (simp add: addTable_def log_added)
next
  case False
  note start = addTable_start [OF False]
  obtain res L1 where
    thn: "\<And>t. table_header_names (truthy hn) hn dl t = (res, added t [] L1)"
    using table_header_names_effect by blast
  show ?thesis
  proof (cases res)
    case (Inl out)
    then show ?thesis
      by (simp add: start thn)
  next
    case (Inr hn')
    obtain out F2 L2 where th: "\<And>t. table_head c hn' al t = (out, added t F2 L2)"
      using table_head_adds by blast
    obtain r3 F3 L3 where
      tb: "\<And>t. table_body (rows = PNone) hn' rows dl esc t = (r3, added t F3 L3)"
      using steady_table_body [of "rows = PNone" hn' rows dl esc]
      unfolding steady_def by blast
    show ?thesis
      by (cases out) (simp_all add: start thn Inr th tb)
  qed
qed

lemma prefix_added: "prefix (document_data_array s) (document_data_array (added s fs rs))"
  by simp

lemma addTable_prefix:
  "prefix (document_data_array s)
     (document_data_array (snd (addTable hn rows al dl esc c s)))"
proof -
  obtain fs rs where "snd (addTable hn rows al dl esc c s) = added s fs rs"
    using addTable_adds by blast
  then show ?thesis by simp
qed

text \<open>
  C9. After a call of any emission method the buffer is what it was before the call followed
  by what the call appended. This holds for \<open>addTable\<close> however the call ends: by completing
  the table, by \<open>return\<close> after a logged error, or by an exception.
\<close>

theorem buffer_only_grows:
  "prefix (document_data_array s) (document_data_array (writeText text html_escape s))
   \<and> prefix (document_data_array s) (document_data_array (writeTextLine text html_escape s))
   \<and> prefix (document_data_array s)
        (document_data_array (snd (addBoldedText str write_as_line s)))
   \<and> prefix (document_data_array s)
        (document_data_array (snd (addItalicizedText str write_as_line s)))
   \<and> prefix (document_data_array s)
        (document_data_array (snd (addBoldedAndItalicizedText str write_as_line s)))
   \<and> prefix (document_data_array s) (document_data_array (addHorizontalRule syn s))
   \<and> prefix (document_data_array s)
        (document_data_array (addCodeBlock syn str syntax escape_html s))
   \<and> prefix (document_data_array s)
        (document_data_array (snd (addInlineCodeBlock syn text escape_html write s)))
   \<and> prefix (document_data_array s) (document_data_array (addSinglelineBlockQuote syn str s))
   \<and> prefix (document_data_array s) (document_data_array (addMultiLineBlockQuote syn str s))
   \<and> prefix (document_data_array s)
        (document_data_array
           (snd (addTable header_names row_elements alignment dictionary_list html_escape'
                   capitalize_headers s)))"
  by (simp add: writeText_added writeTextLine_added addBoldedText_def addItalicizedText_def
        addBoldedAndItalicizedText_def addHorizontalRule_def addCodeBlock_def
        addInlineCodeBlock_def addSinglelineBlockQuote_def addMultiLineBlockQuote_def
        Let_def addTable_prefix)



subsection \<open>Footnote indices\<close>

lemma init_builder_shared:
  "init_builder (Some r) h = (\<lparr>footnote_index = r\<rparr>, h)"
  by (simp add: init_builder_def)

lemma create_footnote_reference_next:
  "cells h (footnote_index b) = Some n \<Longrightarrow>
     create_footnote_reference b h = (n + 1, h\<lparr>cells := (cells h)(footnote_index b \<mapsto> n + 1)\<rparr>)"
  by (simp add: create_footnote_reference_def Let_def)

lemma run_steps_increasing:
  assumes "\<forall>b\<in>set bs. footnote_index b = r" and "cells h r = Some n"
  shows "sorted_wrt (<) (run_steps steps bs h) \<and> (\<forall>i\<in>set (run_steps steps bs h). n < i)"
  using assms
proof (induction steps arbitrary: bs h n)
  case Nil
  show ?case by simp
next
  case (Cons st steps)
  show ?case
  proof (cases st)
    case (Nest k)
    show ?thesis
    proof (cases "k < length bs")
      case True
      then have k: "footnote_index (bs ! k) = r"
        using Cons.prems(1) by simp
      have "\<forall>b\<in>set (bs @ [\<lparr>footnote_index = r\<rparr>]). footnote_index b = r"
        using Cons.prems(1) by simp
      from Cons.IH [OF this Cons.prems(2)] show ?thesis
        by (simp add: Nest True k init_builder_shared)
    next
      case False
      with Cons.IH [OF Cons.prems] show ?thesis
        by (simp add: Nest)
    qed
  next
    case (Footnote k)
    show ?thesis
    proof (cases "k < length bs")
      case True
      then have k: "footnote_index (bs ! k) = r"
        using Cons.prems(1) by simp
      let ?h = "h\<lparr>cells := (cells h)(r \<mapsto> n + 1)\<rparr>"
      have step: "create_footnote_reference (bs ! k) h = (n + 1, ?h)"
        using create_footnote_reference_next [of h "bs ! k" n] Cons.prems(2) by (simp add: k)
      have "cells ?h r = Some (n + 1)"
        by simp
      from Cons.IH [OF Cons.prems(1) this]
      have "sorted_wrt (<) (run_steps steps bs ?h)"
        and "\<forall>i\<in>set (run_steps steps bs ?h). n + 1 < i"
        by simp_all
      then show ?thesis
        by (auto simp: Footnote True step)
    next
      case False
      with Cons.IH [OF Cons.prems] show ?thesis
        by (simp add: Footnote)
    qed
  qed
qed

text \<open>
  C8. In a document built by a root generator and any number of generators nested in it,
  all on the counter of the root, the footnote indices come out strictly increasing in the
  order in which the references are created, whichever generator creates them; so no index
  is issued twice.
\<close>

theorem footnote_indices_increase:
  "sorted_wrt (<) (run_document steps) \<and> distinct (run_document steps)"
proof -
  have "sorted_wrt (<) (run_steps steps [\<lparr>footnote_index = 0\<rparr>]
          \<lparr>cells = [0 \<mapsto> 0], next_ref = Suc 0\<rparr>)"
    using run_steps_increasing [of "[\<lparr>footnote_index = 0\<rparr>]" 0
        "\<lparr>cells = [0 \<mapsto> 0], next_ref = Suc 0\<rparr>" 0 steps]
    by simp
  then have s: "sorted_wrt (<) (run_document steps)"
    by (simp add: run_document_def init_builder_def)
  then have "distinct (run_document steps)"
    using strict_sorted_iff by blast
  with s show ?thesis by simp
qed

end
